theory Spec2Isabelle
  imports Main "HOL-Library.Char_ord" "HOL-Library.List_Lexorder"
begin

section \<open>JavaScript data literals\<close>

text \<open>
  The repository holds one file, \<^verbatim>\<open>doc/foxbox_taxonomy/devices/sidebar-items.js\<close>: a single
  expression statement that calls \<^verbatim>\<open>initSidebarItems\<close> with one object literal. The values
  of such a literal are modelled as a datatype; an object keeps its properties as the
  association list the literal writes, in source order.
\<close>

datatype js_value =
    JNull
  | JBool bool
  | JNum int
  | JStr string
  | JArr "js_value list"
  | JObj "(string \<times> js_value) list"

text \<open>A statement of the file: a call of a global function on argument literals.\<close>

datatype js_stmt = CallStmt string "js_value list"

section \<open>The file\<close>

text \<open>
  The argument of the call, property by property. The escape \<^verbatim>\<open>\"\<close> of the JavaScript
  string literals denotes the character \<^verbatim>\<open>"\<close> (code 34), as it does here.
\<close>

definition sidebar_items :: js_value where
  "sidebar_items = JObj [
    (''enum'', JArr [
        JArr [JStr ''ChannelKind'',
              JStr ''The kind of the service, i.e. a strongly-typed description of _what_ the service can do. Used both for locating services (e.g. \"I need a clock\" or \"I need something that can provide pictures\") and for determining the data structure that these services can provide or consume.'']]),
    (''struct'', JArr [
        JArr [JStr ''Channel'',
              JStr ''An channel represents a single place where data can enter or leave a device. Note that channels support either a single kind of getter or a single kind of setter. Devices that support both getters or setters, or several kinds of getters, or several kinds of setters, are represented as nodes containing several channels.''],
        JArr [JStr ''Getter'',
              JStr ''A getter operation available on a channel.''],
        JArr [JStr ''Node'',
              JStr ''Metadata on a node. A node is a device or collection of devices that may offer services. The FoxBox itself a node offering services such as a clock, communication with the user through her smart devices, etc.''],
        JArr [JStr ''NodeId'',
              JStr ''A marker for Id. Only useful for writing `Id<NodeId>`.''],
        JArr [JStr ''Setter'',
              JStr ''An setter operation available on an channel.'']]),
    (''trait'', JArr [
        JArr [JStr ''IOMechanism'',
              JStr ''The communication mechanism used by the channel.'']])]"

definition sidebar_items_js :: "js_stmt list" where
  "sidebar_items_js = [CallStmt ''initSidebarItems'' [sidebar_items]]"

section \<open>Reading an object\<close>

text \<open>
  The own property names of an object, as \<^verbatim>\<open>Object.keys\<close> lists them for names that are
  not array indices: every name once, at the place of its first occurrence in the
  literal.
\<close>

fun own_keys :: "js_value \<Rightarrow> string list" where
  "own_keys (JObj ps) = rev (remdups (rev (map fst ps)))"
| "own_keys _ = []"

text \<open>Property lookup: where a literal repeats a name, the last value stands.\<close>

fun get_prop :: "js_value \<Rightarrow> string \<Rightarrow> js_value option" where
  "get_prop (JObj ps) k = map_of (rev ps) k"
| "get_prop _ k = None"

text \<open>An entry \<^verbatim>\<open>[name, summary]\<close>: an array of exactly two strings.\<close>

fun pair_of :: "js_value \<Rightarrow> (string \<times> string) option" where
  "pair_of (JArr [JStr n, JStr s]) = Some (n, s)"
| "pair_of _ = None"

text \<open>The entries registered under a category, in display order.\<close>

definition items_of :: "js_value \<Rightarrow> string \<Rightarrow> (string \<times> string) list" where
  "items_of obj k =
     (case get_prop obj k of
        Some (JArr xs) \<Rightarrow> List.map_filter pair_of xs
      | _ \<Rightarrow> [])"

definition names_of :: "js_value \<Rightarrow> string \<Rightarrow> string list" where
  "names_of obj k = map fst (items_of obj k)"

definition summaries_of :: "js_value \<Rightarrow> string \<Rightarrow> string list" where
  "summaries_of obj k = map snd (items_of obj k)"

text \<open>All entries of the object, category after category.\<close>

definition all_items :: "js_value \<Rightarrow> (string \<times> string) list" where
  "all_items obj = concat (map (items_of obj) (own_keys obj))"

definition all_names :: "js_value \<Rightarrow> string list" where
  "all_names obj = map fst (all_items obj)"

definition all_summaries :: "js_value \<Rightarrow> string list" where
  "all_summaries obj = map snd (all_items obj)"

text \<open>
  Type names are the names registered as \<^verbatim>\<open>enum\<close> or \<^verbatim>\<open>struct\<close>; capability names
  are those registered as \<^verbatim>\<open>trait\<close>.
\<close>

definition type_names :: "js_value \<Rightarrow> string list" where
  "type_names obj = names_of obj ''enum'' @ names_of obj ''struct''"

definition capability_names :: "js_value \<Rightarrow> string list" where
  "capability_names obj = names_of obj ''trait''"

section \<open>Character classes\<close>

definition is_ascii_letter :: "char \<Rightarrow> bool" where
  "is_ascii_letter c =
     (let n = (of_char c :: nat) in (65 \<le> n \<and> n \<le> 90) \<or> (97 \<le> n \<and> n \<le> 122))"

definition is_ascii_digit :: "char \<Rightarrow> bool" where
  "is_ascii_digit c = (let n = (of_char c :: nat) in 48 \<le> n \<and> n \<le> 57)"

definition is_ascii_alnum :: "char \<Rightarrow> bool" where
  "is_ascii_alnum c = (is_ascii_letter c \<or> is_ascii_digit c)"

text \<open>An identifier: a letter, then letters and digits.\<close>

fun is_identifier :: "string \<Rightarrow> bool" where
  "is_identifier [] = False"
| "is_identifier (c # cs) = (is_ascii_letter c \<and> list_all is_ascii_alnum cs)"

text \<open>
  The text after an ampersand is the rest of an HTML entity when it is a non-empty run
  of letters, digits and \<^verbatim>\<open>#\<close> closed by a semicolon.
\<close>

definition is_entity_char :: "char \<Rightarrow> bool" where
  "is_entity_char c = (is_ascii_alnum c \<or> c = CHR ''#'')"

definition entity_tail :: "string \<Rightarrow> bool" where
  "entity_tail cs =
     (takeWhile is_entity_char cs \<noteq> [] \<and>
      (case dropWhile is_entity_char cs of [] \<Rightarrow> False | d # ds \<Rightarrow> d = CHR '';''))"

fun amp_in_entities :: "string \<Rightarrow> bool" where
  "amp_in_entities [] = True"
| "amp_in_entities (c # cs) =
     ((if c = CHR ''&'' then entity_tail cs else True) \<and> amp_in_entities cs)"

definition single_line :: "string \<Rightarrow> bool" where
  "single_line s = (CHR 0x0A \<notin> set s)"

definition has_raw_angle :: "string \<Rightarrow> bool" where
  "has_raw_angle s = (CHR ''<'' \<in> set s \<or> CHR ''>'' \<in> set s)"

definition html_escaped_line :: "string \<Rightarrow> bool" where
  "html_escaped_line s = (single_line s \<and> \<not> has_raw_angle s \<and> amp_in_entities s)"

section \<open>The registration object's keys\<close>

lemma own_keys_sidebar_items:
  "own_keys sidebar_items = [''enum'', ''struct'', ''trait'']"
  by (simp add: sidebar_items_def)

text \<open>
  C1. The registration object passed to \<^verbatim>\<open>initSidebarItems\<close> has exactly the three keys
  \<^verbatim>\<open>enum\<close>, \<^verbatim>\<open>struct\<close> and \<^verbatim>\<open>trait\<close>, no more and no fewer: the file is one call of
  \<^verbatim>\<open>initSidebarItems\<close> on \<open>sidebar_items\<close>, whose own keys are these three, each once.
\<close>

theorem registration_keys_exact:
  "sidebar_items_js = [CallStmt ''initSidebarItems'' [sidebar_items]] \<and>
   set (own_keys sidebar_items) = {''enum'', ''struct'', ''trait''} \<and>
   distinct (own_keys sidebar_items) \<and>
   length (own_keys sidebar_items) = 3"
  by (simp add: sidebar_items_js_def own_keys_sidebar_items)

section \<open>The shape of the values\<close>

text \<open>
  C2. For every category key of the registration object, the value is an ordered
  sequence (an array) in which every element is a pair of exactly two strings, the item
  name first and its summary second.
\<close>

theorem category_values_are_pair_lists:
  "\<forall>k \<in> set (own_keys sidebar_items).
     \<exists>xs. get_prop sidebar_items k = Some (JArr xs) \<and>
          (\<forall>x \<in> set xs. \<exists>n s. x = JArr [JStr n, JStr s])"
  unfolding own_keys_sidebar_items
  by (simp add: sidebar_items_def)

theorem category_values_are_pair_lists_witness:
  "\<exists>n s. get_prop sidebar_items ''trait'' = Some (JArr [JArr [JStr n, JStr s]])"
  using category_values_are_pair_lists [rule_format, of "''trait''"]
  by (simp add: sidebar_items_def)

text \<open>
  Reading the entries with \<open>items_of\<close> therefore drops nothing: the value of each key is
  the array of the pairs read.
\<close>

lemma items_of_faithful:
  "list_all
     (\<lambda>k. get_prop sidebar_items k =
            Some (JArr (map (\<lambda>(n, s). JArr [JStr n, JStr s]) (items_of sidebar_items k))))
     (own_keys sidebar_items)"
  unfolding own_keys_sidebar_items
  by (simp add: items_of_def sidebar_items_def)

section \<open>The registered names\<close>

lemma names_of_enum: "names_of sidebar_items ''enum'' = [''ChannelKind'']"
  by (simp add: names_of_def items_of_def sidebar_items_def)

lemma names_of_struct:
  "names_of sidebar_items ''struct'' = [''Channel'', ''Getter'', ''Node'', ''NodeId'', ''Setter'']"
  by (simp add: names_of_def items_of_def sidebar_items_def)

lemma names_of_trait: "names_of sidebar_items ''trait'' = [''IOMechanism'']"
  by (simp add: names_of_def items_of_def sidebar_items_def)

lemma all_names_sidebar_items:
  "all_names sidebar_items =
     [''ChannelKind'', ''Channel'', ''Getter'', ''Node'', ''NodeId'', ''Setter'', ''IOMechanism'']"
proof -
  have "all_names sidebar_items =
          concat (map (names_of sidebar_items) (own_keys sidebar_items))"
    unfolding all_names_def all_items_def map_concat
    by (simp add: comp_def names_of_def [abs_def])
  then show ?thesis
    by (simp add: own_keys_sidebar_items names_of_enum names_of_struct names_of_trait)
qed

text \<open>
  C3. Within each category the registered names are pairwise distinct, and the name
  sets are \<open>{ChannelKind}\<close> for \<^verbatim>\<open>enum\<close>, \<open>{Channel, Getter, Node, NodeId, Setter}\<close> for
  \<^verbatim>\<open>struct\<close> and \<open>{IOMechanism}\<close> for \<^verbatim>\<open>trait\<close>.
\<close>

theorem names_distinct_per_category:
  "distinct (names_of sidebar_items ''enum'') \<and>
   distinct (names_of sidebar_items ''struct'') \<and>
   distinct (names_of sidebar_items ''trait'') \<and>
   set (names_of sidebar_items ''enum'') = {''ChannelKind''} \<and>
   set (names_of sidebar_items ''struct'') =
     {''Channel'', ''Getter'', ''Node'', ''NodeId'', ''Setter''} \<and>
   set (names_of sidebar_items ''trait'') = {''IOMechanism''}"
  by (simp add: names_of_enum names_of_struct names_of_trait)

section \<open>The summaries\<close>

text \<open>
  C4. Every summary string in every category of the registration object is a
  non-empty string.
\<close>

theorem summaries_nonempty:
  "\<forall>k \<in> set (own_keys sidebar_items). \<forall>s \<in> set (summaries_of sidebar_items k). s \<noteq> []"
  unfolding own_keys_sidebar_items
  by (simp add: summaries_of_def items_of_def sidebar_items_def)

theorem summaries_nonempty_witness:
  "summaries_of sidebar_items ''trait'' = [''The communication mechanism used by the channel.''] \<and>
   hd (summaries_of sidebar_items ''trait'') \<noteq> []"
  using summaries_nonempty [rule_format, of "''trait''" "hd (summaries_of sidebar_items ''trait'')"]
  by (simp add: own_keys_sidebar_items summaries_of_def items_of_def sidebar_items_def)

section \<open>Type names and capability names\<close>

text \<open>
  C5, as stated: the file registers exactly five type names, the union of the
  \<^verbatim>\<open>enum\<close> and \<^verbatim>\<open>struct\<close> entries. It fails on the count: the union is the six names
  ChannelKind, Channel, Getter, Node, NodeId and Setter.
\<close>

theorem five_type_names_counterexample:
  "type_names sidebar_items =
     [''ChannelKind'', ''Channel'', ''Getter'', ''Node'', ''NodeId'', ''Setter''] \<and>
   card (set (type_names sidebar_items)) \<noteq> 5"
  by (simp add: type_names_def names_of_enum names_of_struct)

text \<open>
  C5, amended: the file consists of a single call on a single object literal that
  registers exactly six type names, ChannelKind, Channel, Getter, Node, NodeId and Setter
  (the union of the \<^verbatim>\<open>enum\<close> and \<^verbatim>\<open>struct\<close> entries), and exactly one capability name,
  IOMechanism (the sole \<^verbatim>\<open>trait\<close> entry).
\<close>

theorem six_type_names_one_capability:
  "(\<exists>ps. sidebar_items_js = [CallStmt ''initSidebarItems'' [JObj ps]]) \<and>
   set (type_names sidebar_items) =
     {''ChannelKind'', ''Channel'', ''Getter'', ''Node'', ''NodeId'', ''Setter''} \<and>
   card (set (type_names sidebar_items)) = 6 \<and>
   set (capability_names sidebar_items) = {''IOMechanism''} \<and>
   card (set (capability_names sidebar_items)) = 1"
proof -
  have single_literal: "\<exists>ps. sidebar_items_js = [CallStmt ''initSidebarItems'' [JObj ps]]"
    by (simp add: sidebar_items_js_def sidebar_items_def)
  have types: "type_names sidebar_items =
      [''ChannelKind'', ''Channel'', ''Getter'', ''Node'', ''NodeId'', ''Setter'']"
    by (simp add: type_names_def names_of_enum names_of_struct)
  have caps: "capability_names sidebar_items = [''IOMechanism'']"
    by (simp add: capability_names_def names_of_trait)
  show ?thesis
    unfolding types caps using single_literal by simp
qed

section \<open>Single lines and HTML escaping\<close>

text \<open>The predicates tell escaped text from raw text.\<close>

lemma html_escaped_line_accepts: "html_escaped_line ''writing `Id&lt;NodeId&gt;` &amp;&#39;''"
  by (simp add: html_escaped_line_def single_line_def has_raw_angle_def entity_tail_def
      is_entity_char_def is_ascii_alnum_def is_ascii_letter_def is_ascii_digit_def)

lemma amp_in_entities_rejects:
  "\<not> amp_in_entities ''a & b''" "\<not> amp_in_entities ''a &lt''" "\<not> amp_in_entities ''a &;''"
  by (simp_all add: entity_tail_def is_entity_char_def is_ascii_alnum_def
      is_ascii_letter_def is_ascii_digit_def)

text \<open>
  C6, as stated: every summary is a single line and HTML-escaped, with no raw
  \<^verbatim>\<open><\<close> or \<^verbatim>\<open>>\<close>. It fails at the summary of NodeId in the \<^verbatim>\<open>struct\<close> category, which
  holds both characters raw.
\<close>

theorem nodeid_summary_not_escaped:
  "map_of (items_of sidebar_items ''struct'') ''NodeId'' =
     Some ''A marker for Id. Only useful for writing `Id<NodeId>`.'' \<and>
   \<not> html_escaped_line ''A marker for Id. Only useful for writing `Id<NodeId>`.''"
  by (simp add: items_of_def sidebar_items_def html_escaped_line_def has_raw_angle_def)

text \<open>
  C6, amended: every summary string is a single line (it contains no newline
  character) and contains no \<^verbatim>\<open>&\<close> at all, so none outside an HTML entity; the summaries
  are not all HTML-escaped: raw \<^verbatim>\<open><\<close> or \<^verbatim>\<open>>\<close> occurs in the summary of NodeId and in
  no other summary.
\<close>

theorem summaries_single_line_angle_only_nodeid:
  "list_all (\<lambda>s. single_line s \<and> CHR ''&'' \<notin> set s \<and> amp_in_entities s)
     (all_summaries sidebar_items) \<and>
   map fst (filter (\<lambda>(n, s). has_raw_angle s) (all_items sidebar_items)) = [''NodeId'']"
  unfolding all_summaries_def all_items_def own_keys_sidebar_items
  by (simp add: items_of_def sidebar_items_def single_line_def has_raw_angle_def)

section \<open>Order and uniqueness of the names\<close>

text \<open>
  Strings are compared lexicographically, character by character, and characters by
  their codes: the ASCII order on the names of this file.
\<close>

lemma char_less_by_code: "(c::char) < d \<longleftrightarrow> (of_char c :: nat) < of_char d"
  by (simp add: less_char_def)

text \<open>
  C7. Within the \<^verbatim>\<open>struct\<close> category the names appear in strictly ascending
  lexicographic order, Channel, Getter, Node, NodeId, Setter; and within every category
  the name sequence is strictly ascending.
\<close>

theorem names_ascending_per_category:
  "names_of sidebar_items ''struct'' =
     [''Channel'', ''Getter'', ''Node'', ''NodeId'', ''Setter''] \<and>
   sorted_wrt (<) (names_of sidebar_items ''struct'') \<and>
   list_all (\<lambda>k. sorted_wrt (<) (names_of sidebar_items k)) (own_keys sidebar_items)"
  by (simp add: own_keys_sidebar_items names_of_enum names_of_struct names_of_trait)

text \<open>
  C8. Registered names are unique across all three categories: no name appears in
  more than one category, and no name appears twice anywhere in the registration object.
\<close>

theorem names_globally_unique:
  "distinct (all_names sidebar_items) \<and>
   set (names_of sidebar_items ''enum'') \<inter> set (names_of sidebar_items ''struct'') = {} \<and>
   set (names_of sidebar_items ''enum'') \<inter> set (names_of sidebar_items ''trait'') = {} \<and>
   set (names_of sidebar_items ''struct'') \<inter> set (names_of sidebar_items ''trait'') = {}"
  by (simp add: all_names_sidebar_items names_of_enum names_of_struct names_of_trait)

text \<open>The identifier predicate refuses what is not a letter followed by letters and digits.\<close>

lemma is_identifier_rejects:
  "\<not> is_identifier []" "\<not> is_identifier ''1a''" "\<not> is_identifier ''a_b''"
  "\<not> is_identifier ''Id<NodeId>''"
  by (simp_all add: is_ascii_alnum_def is_ascii_letter_def is_ascii_digit_def)

text \<open>
  C9. Every registered name is a non-empty string that starts with an ASCII letter and
  contains only ASCII letters and digits.
\<close>

theorem names_are_identifiers:
  "list_all is_identifier (all_names sidebar_items)"
  unfolding all_names_sidebar_items
  by (simp add: is_ascii_alnum_def is_ascii_letter_def is_ascii_digit_def)

end
